theory Spec2Isabelle
  imports Complex_Main "HOL-Library.Sublist"
begin

section \<open>JavaScript strings\<close>

text \<open>
  Strings are character lists. \<open>String.prototype.toLowerCase\<close> is modelled on ASCII,
  which covers every address and key the service handles (hex digits, \<open>0x\<close>, \<open>-\<close>,
  \<open>:\<close>); \<open>startsWith\<close> compares the leading characters.
\<close>

definition toLowerCaseChar :: "char \<Rightarrow> char" where
  "toLowerCaseChar c =
     (let n = (of_char c :: nat) in if 65 \<le> n \<and> n \<le> 90 then char_of (n + 32) else c)"

definition toLowerCase :: "string \<Rightarrow> string" where
  "toLowerCase s = map toLowerCaseChar s"

definition startsWith :: "string \<Rightarrow> string \<Rightarrow> bool" where
  "startsWith s p = (take (length p) s = p)"

text \<open>Exceptions are values; a function that can throw returns \<open>js_error + 'a\<close>.\<close>

datatype js_error = Error string | TypeError string

section \<open>Data model of \<open>PriceMonitor.js\<close>\<close>

datatype pool_type = V2 | V3 | AERODROME_V2 | AERODROME_V3

text \<open>The per-pool configuration object built by \<open>buildTokenConfig\<close>.\<close>

record pool_config =
  pc_address :: string
  pc_type :: pool_type
  pc_version :: nat
  pc_dex :: string
  pair :: string
  pairAddress :: "string option"
  pairIsAgent :: bool
  description :: string
  priority :: real
  pc_fee :: "nat option"

text \<open>One entry of \<open>prices\<close> in \<open>calculatePrice\<close>.\<close>

record price_sample =
  ps_priceUSD :: real
  ps_priceBNB :: real
  ps_priority :: real
  ps_pool :: string
  ps_description :: string
  ps_pair :: string

text \<open>
  The object returned by \<open>calculatePrice\<close>. The fields other than the two prices are
  absent from the \<open>{ priceUSD: 0, priceBNB: 0 }\<close> result, hence optional.
\<close>

record price_meta =
  pm_tokenAddress :: string
  pm_symbol :: string
  pm_name :: string
  pm_poolCount :: nat
  pm_pools :: "price_sample list"
  pm_timestamp :: string

record token_price =
  priceUSD :: real
  priceBNB :: real
  meta :: "price_meta option"

section \<open>Swap classifier\<close>

record swap_info =
  isBuy :: bool
  tokenAmount :: string
  pairAmount :: string
  eventType :: string

text \<open>
  \<open>parseV3SwapInfo(amount0, amount1, isToken0, decimals0, decimals1, poolConfig)\<close>.
  The amounts are the signed \<open>int256\<close> values of the log, delivered as BigInt.
  \<open>formatAmount\<close> renders a raw amount with its decimals through
  \<open>ethers.formatUnits\<close> and the Number formatting methods; it is taken as a parameter.
\<close>

definition parseV3SwapInfo ::
  "(int \<Rightarrow> nat \<Rightarrow> string) \<Rightarrow> int \<Rightarrow> int \<Rightarrow> bool \<Rightarrow> nat \<Rightarrow> nat \<Rightarrow> pool_config \<Rightarrow> swap_info" where
  "parseV3SwapInfo formatAmount amount0 amount1 isToken0 decimals0 decimals1 poolConfig =
     (let (tokenAmountRaw, pairAmountRaw, buy) =
            (if isToken0
             then (if amount0 < 0 then - amount0 else amount0,
                   if amount1 < 0 then - amount1 else amount1,
                   amount0 < 0)
             else (if amount1 < 0 then - amount1 else amount1,
                   if amount0 < 0 then - amount0 else amount0,
                   amount1 < 0));
          tokenAmountS = formatAmount tokenAmountRaw (if isToken0 then decimals0 else decimals1);
          pairAmountS = formatAmount pairAmountRaw (if isToken0 then decimals1 else decimals0)
      in \<lparr> isBuy = buy,
           tokenAmount = tokenAmountS @ '' tokens'',
           pairAmount = pairAmountS @ '' '' @ pair poolConfig,
           eventType = ''Swap (V3)'' \<rparr>)"

section \<open>Outlier rejection\<close>

text \<open>
  JavaScript numbers are IEEE-754 doubles. The arithmetic \<open>removeOutliers\<close> performs on
  them is kept as a parameter: the number a literal or a length denotes, the four
  operators, \<open>Math.pow\<close>, \<open>Math.sqrt\<close>, \<open>Math.abs\<close> and the comparison \<open><=\<close>. Nothing
  is assumed of them, so what is proved of \<open>removeOutliers\<close> holds of double arithmetic
  with its rounding, its underflow and its special values.
\<close>

record 'n js_math =
  js_num :: "nat \<Rightarrow> 'n"
  js_add :: "'n \<Rightarrow> 'n \<Rightarrow> 'n"
  js_sub :: "'n \<Rightarrow> 'n \<Rightarrow> 'n"
  js_mul :: "'n \<Rightarrow> 'n \<Rightarrow> 'n"
  js_div :: "'n \<Rightarrow> 'n \<Rightarrow> 'n"
  Math_pow :: "'n \<Rightarrow> 'n \<Rightarrow> 'n"
  Math_sqrt :: "'n \<Rightarrow> 'n"
  Math_abs :: "'n \<Rightarrow> 'n"
  js_le :: "'n \<Rightarrow> 'n \<Rightarrow> bool"

text \<open>\<open>removeOutliers(prices)\<close>; \<open>reduce\<close> with initial value 0 is a left fold.\<close>

definition removeOutliers :: "'n js_math \<Rightarrow> 'n list \<Rightarrow> 'n list" where
  "removeOutliers M prices =
     (if length prices \<le> 2 then prices
      else
        let mean = js_div M (foldl (js_add M) (js_num M 0) prices) (js_num M (length prices));
            squaredDiffs = map (\<lambda>p. Math_pow M (js_sub M p mean) (js_num M 2)) prices;
            variance = js_div M (foldl (js_add M) (js_num M 0) squaredDiffs)
                         (js_num M (length prices));
            stdDev = Math_sqrt M variance;
            filtered = filter (\<lambda>p. js_le M (Math_abs M (js_sub M p mean))
                                         (js_mul M (js_num M 2) stdDev)) prices
        in if length filtered = 0 then prices else filtered)"

text \<open>
  The specification's words, read in two ways. Read exactly, over the reals: the
  arithmetic mean and the (population) standard deviation of a sample sequence.
\<close>

definition mean :: "real list \<Rightarrow> real" where
  "mean P = sum_list P / real (length P)"

definition stddev :: "real list \<Rightarrow> real" where
  "stddev P = sqrt (sum_list (map (\<lambda>p. (p - mean P) ^ 2) P) / real (length P))"

text \<open>
  Read as the program evaluates them, in its arithmetic \<open>M\<close>: the computed mean, the
  computed deviation, and the test \<open>|p - mean| <= 2 * stdDev\<close> on these.
\<close>

definition computedMean :: "'n js_math \<Rightarrow> 'n list \<Rightarrow> 'n" where
  "computedMean M P = js_div M (foldl (js_add M) (js_num M 0) P) (js_num M (length P))"

definition computedStdDev :: "'n js_math \<Rightarrow> 'n list \<Rightarrow> 'n" where
  "computedStdDev M P =
     Math_sqrt M
       (js_div M
          (foldl (js_add M) (js_num M 0)
             (map (\<lambda>p. Math_pow M (js_sub M p (computedMean M P)) (js_num M 2)) P))
          (js_num M (length P)))"

definition passesTest :: "'n js_math \<Rightarrow> 'n list \<Rightarrow> 'n \<Rightarrow> bool" where
  "passesTest M P p =
     js_le M (Math_abs M (js_sub M p (computedMean M P)))
       (js_mul M (js_num M 2) (computedStdDev M P))"

section \<open>Agent token pricing\<close>

text \<open>
  An entry of \<open>priceSources\<close> and an entry of \<open>config.agentTokens\<close>. The registry is
  configuration data (empty in the shipped \<open>tokens.config.js\<close>), so it is a parameter.
\<close>

record price_source =
  src_address :: string
  src_type :: pool_type
  src_pair :: string
  src_pairAddress :: "string option"

record agent_config =
  ac_symbol :: string
  priceSources :: "price_source list"

record agent_cached =
  ag_price :: real
  ag_symbol :: string
  ag_timestamp :: int

text \<open>
  What the two resolution functions read but do not write: the registry, the cache TTL
  (\<open>config.settings.agentPriceCacheTTL\<close>), \<open>this.bnbPrice\<close>, the clock \<open>Date.now()\<close>,
  the on-chain read \<open>getV2PoolPrice\<close>/\<open>getV3PoolPrice\<close> of a source for an agent
  address, which either throws or yields the pair-denominated price, and the arithmetic
  \<open>removeOutliers\<close> runs in.
\<close>

record agent_env =
  agentTokens :: "(string \<times> agent_config) list"
  agentPriceCacheTTL :: int
  bnbPrice :: real
  poolPrice :: "price_source \<Rightarrow> string \<Rightarrow> js_error + real"
  now :: int
  math :: "real js_math"

text \<open>
  What they write: the cache \<open>this.agentTokenPrices\<close> and the \<open>console.warn\<close> lines.
\<close>

record agent_state =
  agentTokenPrices :: "string \<rightharpoonup> agent_cached"
  warnings :: "string list"

text \<open>\<open>callStack.join(' -> ')\<close>.\<close>

definition joinArrow :: "string list \<Rightarrow> string" where
  "joinArrow xs = (case xs of [] \<Rightarrow> [] | y # ys \<Rightarrow> foldl (\<lambda>acc s. acc @ '' -> '' @ s) y ys)"

text \<open>Every \<open>pairAddress\<close> that occurs in the registry; used to measure the recursion.\<close>

definition configPairAddresses :: "agent_env \<Rightarrow> string option set" where
  "configPairAddresses E =
     (\<Union>cfg \<in> snd ` set (agentTokens E). src_pairAddress ` set (priceSources cfg))"

text \<open>
  \<open>calculateAgentTokenPrice(agentAddress, agentConfig, callStack)\<close> and
  \<open>getAgentTokenPrice(agentAddress, callStack)\<close>. The \<open>for\<close> loop over the sources is a
  fold carrying the collected prices and the state; a source whose read throws is skipped
  by the loop's \<open>try/catch\<close>. \<open>callStack.includes\<close> compares strings exactly, whereas
  the cache and the registry are looked up under the lower-cased address.
\<close>

function calculateAgentTokenPrice ::
    "agent_env \<Rightarrow> agent_state \<Rightarrow> string \<Rightarrow> agent_config \<Rightarrow> string list \<Rightarrow> real \<times> agent_state"
  and getAgentTokenPrice ::
    "agent_env \<Rightarrow> agent_state \<Rightarrow> string option \<Rightarrow> string list \<Rightarrow> real \<times> agent_state"
where
  "calculateAgentTokenPrice E st agentAddress agentConfig callStack =
     (if agentAddress \<in> set callStack
      then (0, st\<lparr>warnings := warnings st @
              [''Circular dependency detected: '' @ joinArrow callStack @ '' -> '' @ agentAddress]\<rparr>)
      else
        let newCallStack = callStack @ [agentAddress];
            (prices, st') =
              fold (\<lambda>source (prices, s).
                      case poolPrice E source agentAddress of
                        Inl e \<Rightarrow> (prices, s)
                      | Inr p0 \<Rightarrow>
                          let (price, s') =
                                (if src_pair source = ''WBNB'' then (p0 * bnbPrice E, s)
                                 else if src_pair source = ''USDC'' \<or> src_pair source = ''USDT''
                                         \<or> src_pair source = ''DAI'' \<or> src_pair source = ''BUSD''
                                 then (p0, s)
                                 else
                                   let (nestedAgentPrice, s'') =
                                         getAgentTokenPrice E s (src_pairAddress source) newCallStack
                                   in (if nestedAgentPrice > 0 then p0 * nestedAgentPrice else p0, s''))
                          in (if price > 0 then prices @ [price] else prices, s'))
                   (priceSources agentConfig) ([], st)
        in if length prices = 0 then (0, st')
           else
             let cleanPrices = removeOutliers (math E) prices
             in (foldl (+) 0 cleanPrices / real (length cleanPrices), st'))"
| "getAgentTokenPrice E st agentAddressOpt callStack =
     (case agentAddressOpt of
        None \<Rightarrow> (0, st)
      | Some agentAddress \<Rightarrow>
          if agentAddress = [] then (0, st)
          else if agentAddress \<in> set callStack
          then (0, st\<lparr>warnings := warnings st @
                  [''Circular dependency in getAgentTokenPrice: '' @ joinArrow callStack
                     @ '' -> '' @ agentAddress]\<rparr>)
          else
            (case (case agentTokenPrices st (toLowerCase agentAddress) of
                     None \<Rightarrow> None
                   | Some cached \<Rightarrow>
                       if now E - ag_timestamp cached < agentPriceCacheTTL E
                       then Some (ag_price cached) else None) of
               Some fresh \<Rightarrow> (fresh, st)
             | None \<Rightarrow>
                 (case map_of (agentTokens E) (toLowerCase agentAddress) of
                    None \<Rightarrow>
                      (0, st\<lparr>warnings := warnings st @
                             [''No configuration for agent token '' @ agentAddress]\<rparr>)
                  | Some agentConfig \<Rightarrow>
                      let (price, st') =
                            calculateAgentTokenPrice E st agentAddress agentConfig callStack
                      in (price,
                          if price > 0
                          then st'\<lparr>agentTokenPrices := (agentTokenPrices st')
                                 (toLowerCase agentAddress \<mapsto>
                                    \<lparr>ag_price = price, ag_symbol = ac_symbol agentConfig,
                                     ag_timestamp = now E\<rparr>)\<rparr>
                          else st'))))"
  by pat_completeness auto
termination
proof (relation "measure (\<lambda>x. case x of
            Inl (E, st, a, cfg, stack) \<Rightarrow>
              2 * card ((configPairAddresses E \<union> src_pairAddress ` set (priceSources cfg))
                         - Some ` (set stack \<union> {a})) + 1
          | Inr (E, st, ao, stack) \<Rightarrow>
              (case ao of None \<Rightarrow> 0
               | Some a \<Rightarrow> if a \<in> set stack then 0
                           else 2 * card (configPairAddresses E - Some ` (set stack \<union> {a})) + 2))",
       goal_cases)
  case 1
  show ?case by simp
next
  case (2 E st agentAddress agentConfig callStack x xa xb xc b)
  have fin: "finite (configPairAddresses E \<union> src_pairAddress ` set (priceSources agentConfig))"
    by (simp add: configPairAddresses_def)
  let ?S = "(configPairAddresses E \<union> src_pairAddress ` set (priceSources agentConfig))
              - Some ` (set callStack \<union> {agentAddress})"
  have finS: "finite ?S" using fin by blast
  show ?case
  proof (cases "src_pairAddress xa")
    case None
    then show ?thesis by simp
  next
    case (Some pa)
    show ?thesis
    proof (cases "pa \<in> set x")
      case True
      then show ?thesis using Some by simp
    next
      case False
      have inS: "Some pa \<in> ?S"
        using False Some 2(2,3) by force
      have sub: "configPairAddresses E - Some ` (set x \<union> {pa}) \<subseteq> ?S - {Some pa}"
        using 2(2) by auto
      have "card (configPairAddresses E - Some ` (set x \<union> {pa})) \<le> card (?S - {Some pa})"
        by (rule card_mono) (use finS sub in auto)
      moreover have "card (?S - {Some pa}) < card ?S"
        by (rule card_Diff1_less) (use finS inS in auto)
      ultimately show ?thesis using False Some by simp
    qed
  qed
next
  case (3 E st agentAddressOpt callStack x2 x2a)
  have "x2a \<in> snd ` set (agentTokens E)"
    using 3(5) by (force dest: map_of_SomeD)
  then have "src_pairAddress ` set (priceSources x2a) \<subseteq> configPairAddresses E"
    by (auto simp: configPairAddresses_def)
  then have "configPairAddresses E \<union> src_pairAddress ` set (priceSources x2a) = configPairAddresses E"
    by blast
  then show ?case using 3(1,3) by simp
qed


declare calculateAgentTokenPrice.simps [simp del] getAgentTokenPrice.simps [simp del]

section \<open>Pair to USD conversion\<close>

text \<open>A loaded pool: the on-chain attributes plus the configuration entry it came from.\<close>

record pool =
  p_address :: string
  p_type :: pool_type
  token0 :: string
  token1 :: string
  decimals0 :: nat
  decimals1 :: nat
  p_config :: pool_config

text \<open>
  \<open>convertToUSD(priceInPair, pool, isToken0)\<close>, returning \<open>{ priceUSD, priceBNB }\<close> as a
  pair. It calls \<open>getAgentTokenPrice(pairAddress)\<close> with the default empty call stack.
  Division is the total division of HOL (the BNB reference is positive in operation).
\<close>

definition convertToUSD ::
  "agent_env \<Rightarrow> agent_state \<Rightarrow> real \<Rightarrow> pool \<Rightarrow> bool \<Rightarrow> (real \<times> real) \<times> agent_state" where
  "convertToUSD E st priceInPair pl isToken0 =
     (let pairAddr = (case pairAddress (p_config pl) of
                        Some a \<Rightarrow> if a = [] then (if isToken0 then token1 pl else token0 pl) else a
                      | None \<Rightarrow> (if isToken0 then token1 pl else token0 pl));
          pairSymbol = pair (p_config pl)
      in if pairSymbol = ''WBNB''
         then ((priceInPair * bnbPrice E, priceInPair), st)
         else if pairSymbol = ''USDC'' \<or> pairSymbol = ''USDT'' \<or> pairSymbol = ''DAI''
         then ((priceInPair, priceInPair / bnbPrice E), st)
         else if pairIsAgent (p_config pl)
         then
           (let (agentPriceUSD, st') = getAgentTokenPrice E st (Some pairAddr) []
            in if agentPriceUSD > 0
               then ((priceInPair * agentPriceUSD, priceInPair * agentPriceUSD / bnbPrice E), st')
               else ((0, 0), st'\<lparr>warnings := warnings st' @
                       [''No price available for agent token '' @ pairSymbol]\<rparr>))
         else ((0, 0), st\<lparr>warnings := warnings st @ [''Unknown pair type: '' @ pairSymbol]\<rparr>))"

section \<open>Dynamic token configuration\<close>

text \<open>The request payload of \<open>addDynamicTokens\<close>; absent properties are \<open>None\<close>.\<close>

record token_input =
  ti_tokenAddress :: string
  ti_poolAddress :: string
  ti_pair :: string
  ti_pairAddress :: "string option"
  ti_dex :: "string option"
  ti_version :: nat
  ti_fee :: "nat option"
  ti_priority :: "real option"
  ti_name :: "string option"
  ti_symbol :: "string option"
  ti_decimals :: "nat option"

record token_config =
  tc_name :: string
  tc_symbol :: string
  tc_decimals :: nat
  tc_address :: string
  tc_pools :: "pool_config list"

text \<open>\<open>config.addresses\<close> of \<open>tokens.config.js\<close>.\<close>

definition config_addresses :: "(string \<times> string) list" where
  "config_addresses =
     [(''WBNB'', ''0xbb4CdB9CBd36B01bD1cBaEBF2De08d9173bc095c''),
      (''USDC'', ''0x8AC76a51cc950d9822D68b83fE1Ad97B32Cd580d''),
      (''USDT'', ''0x55d398326f99059fF775485246999027B3197955''),
      (''BUSD'', ''0xe9e7CEA3DedcA5984780Bafc599bD69ADd087D56''),
      (''DAI'', ''0x1AF3F329e8BE154074D8769D1FFa4eE058B1DBc3''),
      (''CAKE'', ''0x0E09FaBB73Bd3Ade0a17ECC321fD13a19e81cE82'')]"

text \<open>
  \<open>buildTokenConfig(tokenInput, tokenAddress, poolAddress)\<close>. \<open>ethers.getAddress\<close>
  (validation and checksum casing, from the ethers library) is a parameter that either
  throws or returns the address. \<open>x || d\<close> takes \<open>d\<close> for an absent, empty or zero \<open>x\<close>.
\<close>

definition buildTokenConfig ::
  "(string \<Rightarrow> js_error + string) \<Rightarrow> token_input \<Rightarrow> string \<Rightarrow> string \<Rightarrow> js_error + token_config" where
  "buildTokenConfig getAddress tokenInput tokenAddress poolAddress =
     (let isAgent = (ti_pair tokenInput \<notin> set [''WBNB'', ''USDC'', ''USDT'', ''BUSD'', ''DAI'']);
          pairAddressR =
            (case ti_pairAddress tokenInput of
               Some a \<Rightarrow> if a \<noteq> [] then getAddress a
                         else (case map_of config_addresses (ti_pair tokenInput) of
                                 Some c \<Rightarrow> Inr c
                               | None \<Rightarrow> Inl (Error (''Unknown pair token: '' @ ti_pair tokenInput
                                   @ ''. Please provide pairAddress or use WBNB/USDC/USDT/BUSD'')))
             | None \<Rightarrow> (case map_of config_addresses (ti_pair tokenInput) of
                          Some c \<Rightarrow> Inr c
                        | None \<Rightarrow> Inl (Error (''Unknown pair token: '' @ ti_pair tokenInput
                            @ ''. Please provide pairAddress or use WBNB/USDC/USDT/BUSD''))))
      in case pairAddressR of
           Inl e \<Rightarrow> Inl e
         | Inr pairAddr \<Rightarrow>
             (let dex = (case ti_dex tokenInput of Some d \<Rightarrow> if d = [] then ''uniswap'' else d
                         | None \<Rightarrow> ''uniswap'');
                  dexName = toLowerCase dex;
                  vs = (if ti_version tokenInput = 2 then ''V2'' else ''V3'');
                  (poolType, descr) =
                    (if dexName = ''aerodrome''
                     then (if ti_version tokenInput = 2 then AERODROME_V2 else AERODROME_V3,
                           ti_pair tokenInput @ '' Aerodrome '' @ vs)
                     else (if ti_version tokenInput = 2 then V2 else V3,
                           ti_pair tokenInput @ '' '' @ vs));
                  poolConfig =
                    \<lparr> pc_address = poolAddress, pc_type = poolType,
                      pc_version = ti_version tokenInput, pc_dex = dexName,
                      pair = ti_pair tokenInput, pairAddress = Some pairAddr,
                      pairIsAgent = isAgent, description = descr,
                      priority = (case ti_priority tokenInput of
                                    Some p \<Rightarrow> if p = 0 then 1 else p | None \<Rightarrow> 1),
                      pc_fee = (if ti_version tokenInput = 3 \<or> poolType = AERODROME_V3
                                then ti_fee tokenInput else None) \<rparr>
              in Inr \<lparr> tc_name = (case ti_name tokenInput of
                                     Some n \<Rightarrow> if n = [] then ''Token '' @ take 6 tokenAddress else n
                                   | None \<Rightarrow> ''Token '' @ take 6 tokenAddress),
                        tc_symbol = (case ti_symbol tokenInput of
                                       Some n \<Rightarrow> if n = [] then ''TKN'' else n | None \<Rightarrow> ''TKN''),
                        tc_decimals = (case ti_decimals tokenInput of
                                         Some d \<Rightarrow> if d = 0 then 18 else d | None \<Rightarrow> 18),
                        tc_address = tokenAddress,
                        tc_pools = [poolConfig] \<rparr>))"

section \<open>Mempool tracker (\<open>MempoolMonitor.js\<close>)\<close>

text \<open>
  A value delivered as \<open>message.params.result\<close> after \<open>JSON.parse\<close>: a string, a
  number, a boolean, \<open>null\<close>, an object (such as a block header) or an array.
\<close>

datatype js_value =
    JString string
  | JNumber int
  | JBool bool
  | JNull
  | JObject "(string \<times> js_value) list"
  | JArray "js_value list"

fun digitsOf :: "nat \<Rightarrow> string" where
  "digitsOf n = (if n < 10 then [char_of (48 + n)]
                 else digitsOf (n div 10) @ [char_of (48 + n mod 10)])"

declare digitsOf.simps [simp del]

definition showInt :: "int \<Rightarrow> string" where
  "showInt i = (if i < 0 then ''-'' @ digitsOf (nat (- i)) else digitsOf (nat i))"

definition joinComma :: "string list \<Rightarrow> string" where
  "joinComma xs = (case xs of [] \<Rightarrow> [] | y # ys \<Rightarrow> foldl (\<lambda>acc s. acc @ '','' @ s) y ys)"

text \<open>The string form \<open>String(v)\<close> of such a value.\<close>

fun stringForm :: "js_value \<Rightarrow> string" where
  "stringForm (JString s) = s"
| "stringForm (JNumber i) = showInt i"
| "stringForm (JBool b) = (if b then ''true'' else ''false'')"
| "stringForm JNull = ''null''"
| "stringForm (JObject props) = ''[object Object]''"
| "stringForm (JArray vs) =
     joinComma (map (\<lambda>v. case v of JNull \<Rightarrow> [] | _ \<Rightarrow> stringForm v) vs)"

record tx =
  tx_hash :: string
  tx_to :: "string option"
  tx_from :: string
  tx_data :: string
  tx_gasPrice :: "string option"
  tx_gasLimit :: "string option"

text \<open>The value stored by \<open>addMonitoredPool(poolAddress, config)\<close>.\<close>

record monitored_pool =
  mp_tokenAddress :: string
  mp_poolAddress :: string
  mp_protocol :: string
  mp_userAddress :: "string option"
  mp_isToken0 :: "bool option"
  mp_addedAt :: int

record swap_data =
  sd_tokenAddress :: string
  sd_poolAddress :: string
  sd_protocol :: string
  sd_userAddress :: string
  sd_operation :: string
  sd_methodId :: string
  sd_gasPrice :: "string option"
  sd_gasLimit :: "string option"

record pending_swap =
  ps_data :: swap_data
  ps_txHash :: string
  ps_detectedAt :: int
  ps_status :: string

record mempool_metrics =
  pendingDetected :: nat
  confirmed :: nat
  failed :: nat
  replaced :: nat
  timedOut :: nat

text \<open>
  The monitor's state. \<open>swapClientConnected\<close> stands for
  \<open>this.swapClient && this.swapClient.isConnected()\<close>; \<open>mm_emitted\<close> collects the
  \<open>swap:pending\<close> envelopes sent on the client socket, \<open>mm_watching\<close> the hashes for which
  \<open>waitForConfirmation\<close> was started.
\<close>

record mempool =
  pendingSwaps :: "(string \<times> pending_swap) list"
  monitoredPools :: "(string \<times> monitored_pool) list"
  mm_metrics :: mempool_metrics
  isMonitoring :: bool
  swapClientConnected :: bool
  mm_emitted :: "pending_swap list"
  mm_watching :: "string list"

text \<open>
  The provider and the ABI decoder: \<open>provider.getTransaction\<close> throws, or resolves to
  \<open>null\<close> or to a transaction; \<open>iface.parseTransaction\<close> throws, or returns \<open>null\<close> or the
  decoded \<open>(amount0Out, amount1Out)\<close>.
\<close>

record mempool_env =
  getTransaction :: "string \<Rightarrow> js_error + tx option"
  parseTransaction :: "string \<Rightarrow> js_error + (int \<times> int) option"
  mm_now :: int

text \<open>The values of \<open>SWAP_SIGNATURES\<close>, in declaration order.\<close>

definition SWAP_SIGNATURES :: "(string \<times> string) list" where
  "SWAP_SIGNATURES =
     [(''swapExactTokensForTokens'', ''0x38ed1739''),
      (''swapTokensForExactTokens'', ''0x8803dbee''),
      (''swapExactETHForTokens'', ''0x7ff36ab5''),
      (''swapTokensForExactETH'', ''0x4a25d94a''),
      (''swapExactTokensForETH'', ''0x18cbafe5''),
      (''swapETHForExactTokens'', ''0xfb3bdb41''),
      (''exactInputSingle'', ''0x414bf389''),
      (''exactOutputSingle'', ''0xdb3e2198''),
      (''exactInput'', ''0xc04b8d59''),
      (''exactOutput'', ''0xf28c0498''),
      (''execute'', ''0x3593564c''),
      (''swap'', ''0x022c0d9f''),
      (''swapV3'', ''0x128acb08'')]"

definition removeMonitoredPool :: "mempool \<Rightarrow> string \<Rightarrow> mempool" where
  "removeMonitoredPool m poolAddress =
     (let key = toLowerCase poolAddress;
          m' = m\<lparr>monitoredPools := filter (\<lambda>(k, v). k \<noteq> key) (monitoredPools m)\<rparr>
      in if length (monitoredPools m') = 0 then m'\<lparr>isMonitoring := False\<rparr> else m')"

definition getPoolConfigForTx :: "mempool \<Rightarrow> tx \<Rightarrow> monitored_pool option" where
  "getPoolConfigForTx m t =
     (case tx_to t of
        None \<Rightarrow> None
      | Some toAddr \<Rightarrow>
          if toAddr = [] then None else map_of (monitoredPools m) (toLowerCase toAddr))"

definition decodeV2DirectSwap :: "mempool_env \<Rightarrow> string \<Rightarrow> monitored_pool \<Rightarrow> string" where
  "decodeV2DirectSwap env data poolConfig =
     (case parseTransaction env data of
        Inl e \<Rightarrow> ''unknown''
      | Inr None \<Rightarrow> ''unknown''
      | Inr (Some (amount0Out, amount1Out)) \<Rightarrow>
          (let isToken0 = (mp_isToken0 poolConfig \<noteq> Some False)
           in if isToken0 then (if amount0Out > 0 then ''buy'' else ''sell'')
              else (if amount1Out > 0 then ''buy'' else ''sell'')))"

definition decodeSwapTransaction :: "mempool_env \<Rightarrow> tx \<Rightarrow> monitored_pool \<Rightarrow> swap_data option" where
  "decodeSwapTransaction env t poolConfig =
     (let data = tx_data t
      in if data = [] \<or> length data < 10 then None
         else
           (let methodId = toLowerCase (take 10 data);
                operation =
                  (if Some methodId = map_of SWAP_SIGNATURES ''swap''
                   then Some (decodeV2DirectSwap env data poolConfig)
                   else if Some methodId = map_of SWAP_SIGNATURES ''swapV3'' then Some ''unknown''
                   else if methodId \<in> set (map snd SWAP_SIGNATURES) then Some ''unknown''
                   else None)
            in case operation of
                 None \<Rightarrow> None
               | Some oper \<Rightarrow>
                   Some \<lparr> sd_tokenAddress = mp_tokenAddress poolConfig,
                          sd_poolAddress = mp_poolAddress poolConfig,
                          sd_protocol = mp_protocol poolConfig,
                          sd_userAddress = tx_from t,
                          sd_operation = oper,
                          sd_methodId = methodId,
                          sd_gasPrice = tx_gasPrice t,
                          sd_gasLimit = tx_gasLimit t \<rparr>))"

definition emitPendingSwap :: "mempool \<Rightarrow> pending_swap \<Rightarrow> mempool" where
  "emitPendingSwap m swapData =
     (if \<not> swapClientConnected m then m else m\<lparr>mm_emitted := mm_emitted m @ [swapData]\<rparr>)"

text \<open>
  \<open>handlePendingTransaction(txHash)\<close>. The whole body sits in a \<open>try\<close> whose \<open>catch\<close>
  returns, so a throwing \<open>getTransaction\<close> leaves the state as it was; the result is
  \<open>Inr\<close> of the new state when the promise resolves and would be \<open>Inl\<close> if it rejected.
\<close>

definition handlePendingTransaction :: "mempool_env \<Rightarrow> mempool \<Rightarrow> js_value \<Rightarrow> js_error + mempool" where
  "handlePendingTransaction env m v =
     (case v of
        JString txHash \<Rightarrow>
          if \<not> startsWith txHash ''0x'' \<or> length txHash \<noteq> 66 then Inr m
          else if map_of (pendingSwaps m) txHash \<noteq> None then Inr m
          else
            (case getTransaction env txHash of
               Inl e \<Rightarrow> Inr m
             | Inr None \<Rightarrow> Inr m
             | Inr (Some t) \<Rightarrow>
                 (case getPoolConfigForTx m t of
                    None \<Rightarrow> Inr m
                  | Some poolConfig \<Rightarrow>
                      (case decodeSwapTransaction env t poolConfig of
                         None \<Rightarrow> Inr m
                       | Some swapData \<Rightarrow>
                           if (case mp_userAddress poolConfig of
                                 None \<Rightarrow> False
                               | Some u \<Rightarrow> u \<noteq> [] \<and> toLowerCase (tx_from t) \<noteq> toLowerCase u)
                           then Inr m
                           else
                             (let pendingSwap = \<lparr> ps_data = swapData, ps_txHash = txHash,
                                                  ps_detectedAt = mm_now env,
                                                  ps_status = ''pending'' \<rparr>;
                                  m1 = m\<lparr>pendingSwaps := pendingSwaps m @ [(txHash, pendingSwap)],
                                         mm_metrics := (mm_metrics m)
                                           \<lparr>pendingDetected := pendingDetected (mm_metrics m) + 1\<rparr>\<rparr>;
                                  m2 = emitPendingSwap m1 pendingSwap
                              in Inr (m2\<lparr>mm_watching := mm_watching m2 @ [txHash]\<rparr>)))))
      | _ \<Rightarrow> Inr m)"

section \<open>Monitor state (\<open>PriceMonitor\<close>)\<close>

text \<open>The value stored in \<open>monitoredTokens\<close>.\<close>

record token_data =
  td_config :: token_config
  td_pools :: "pool list"
  lastPrice :: "token_price option"
  lastUpdate :: "int option"
  lastUpdateCall :: "int option"
  isDynamic :: bool

text \<open>An entry of \<open>LastPriceCache.prices\<close>: the price data plus \<open>cachedAt\<close>.\<close>

record cached_price =
  cp_data :: token_price
  cachedAt :: int

text \<open>
  The value stored in \<open>activeListeners\<close> by the \<open>setup...Listener\<close> functions:
  \<open>{ contract, tokenAddress, poolType }\<close>. A contract object is identified by the pool
  address it was created for. No writer sets a \<open>listener\<close> property; the field is kept
  because \<open>removeDynamicToken\<close> reads it.
\<close>

record listener_data =
  ld_contract :: string
  ld_tokenAddress :: string
  ld_poolType :: string
  ld_listener :: "string option"

text \<open>Socket emissions: \<open>io.to(room).emit(event, payload)\<close> and \<open>io.emit(event, payload)\<close>.\<close>

datatype target = ToRoom string | ToAll

record price_update =
  pu_data :: token_price
  formatted_priceUSD :: string
  formatted_priceBNB :: string

record emission =
  em_target :: target
  em_event :: string
  em_payload :: price_update

record metrics =
  priceUpdates :: nat
  cacheHits :: nat
  cacheMisses :: nat
  apiRequests :: nat
  wsConnections :: nat
  eventsReceived :: nat

text \<open>
  The fields of a \<open>PriceMonitor\<close> instance the modelled methods touch. A JavaScript
  \<open>Map\<close> that is iterated is an association list in insertion order; one that is only
  looked up is a HOL map. \<open>swapHandlers\<close> lists the contracts that carry a live
  \<open>Swap\<close> handler (\<open>poolContract.on('Swap', ...)\<close>), \<open>offCalls\<close> the
  \<open>contract.off('Swap', listener)\<close> calls made.
\<close>

record monitor =
  monitoredTokens :: "string \<rightharpoonup> token_data"
  poolContracts :: "(string \<times> string) list"
  activeListeners :: "(string \<times> listener_data) list"
  priceCache :: "string \<rightharpoonup> cached_price"
  swapListeners :: "string list"
  mempoolMonitor :: "mempool option"
  swapHandlers :: "string list"
  offCalls :: "(string \<times> string) list"
  emitted :: "emission list"
  stats :: metrics

text \<open>\<open>Map.prototype.set\<close> and \<open>delete\<close> on an association list.\<close>

definition mapSet :: "('k \<times> 'v) list \<Rightarrow> 'k \<Rightarrow> 'v \<Rightarrow> ('k \<times> 'v) list" where
  "mapSet m k v =
     (if k \<in> set (map fst m) then map (\<lambda>(k', v'). if k' = k then (k', v) else (k', v')) m
      else m @ [(k, v)])"

definition mapDelete :: "('k \<times> 'v) list \<Rightarrow> 'k \<Rightarrow> ('k \<times> 'v) list" where
  "mapDelete m k = filter (\<lambda>(k', v'). k' \<noteq> k) m"

subsection \<open>\<open>LastPriceCache\<close>\<close>

text \<open>
  The class defines \<open>set\<close>, \<open>get\<close>, \<open>getAll\<close> and \<open>clear\<close> over its \<open>prices\<close> map, and
  nothing else.
\<close>

definition cache_set :: "int \<Rightarrow> monitor \<Rightarrow> string \<Rightarrow> token_price \<Rightarrow> monitor" where
  "cache_set dateNow st tokenAddress priceData =
     st\<lparr>priceCache := (priceCache st)
           (toLowerCase tokenAddress \<mapsto> \<lparr>cp_data = priceData, cachedAt = dateNow\<rparr>)\<rparr>"

definition cache_get :: "monitor \<Rightarrow> string \<Rightarrow> cached_price option" where
  "cache_get st tokenAddress = priceCache st (toLowerCase tokenAddress)"

definition cache_clear :: "monitor \<Rightarrow> monitor" where
  "cache_clear st = st\<lparr>priceCache := Map.empty\<rparr>"

subsection \<open>Listener registration\<close>

text \<open>
  The registry part of \<open>setupV2Listener(pool, tokenAddress)\<close>, on the path where the
  awaited reads succeed: the handle is stored under
  \<open>lower(pool.address) + '-' + lower(tokenAddress)\<close>, the contract under the lower-cased
  pool address, and the \<open>Swap\<close> handler is attached.
\<close>

definition setupV2Listener :: "monitor \<Rightarrow> pool \<Rightarrow> string \<Rightarrow> monitor" where
  "setupV2Listener st pl tokenAddress =
     (let normalizedPoolAddr = toLowerCase (p_address pl);
          normalizedTokenAddr = toLowerCase tokenAddress;
          listenerKey = normalizedPoolAddr @ ''-'' @ normalizedTokenAddr
      in st\<lparr>activeListeners := mapSet (activeListeners st) listenerKey
                \<lparr> ld_contract = p_address pl, ld_tokenAddress = normalizedTokenAddr,
                  ld_poolType = ''V2'', ld_listener = None \<rparr>,
             poolContracts := mapSet (poolContracts st) normalizedPoolAddr (p_address pl),
             swapHandlers := swapHandlers st @ [p_address pl]\<rparr>)"

subsection \<open>Broadcasting\<close>

text \<open>
  \<open>broadcastPrice(tokenAddress, priceData)\<close>. \<open>Number.prototype.toFixed\<close> is a parameter;
  \<open>config.settings.decimalPlaces\<close> is 8.
\<close>

definition decimalPlaces :: nat where
  "decimalPlaces = 8"

definition broadcastPrice ::
  "(real \<Rightarrow> nat \<Rightarrow> string) \<Rightarrow> monitor \<Rightarrow> string \<Rightarrow> token_price \<Rightarrow> monitor" where
  "broadcastPrice toFixed st tokenAddress priceData =
     (let update = \<lparr> pu_data = priceData,
                      formatted_priceUSD = ''$'' @ toFixed (priceUSD priceData) decimalPlaces,
                      formatted_priceBNB = toFixed (priceBNB priceData) decimalPlaces @ '' BNB'' \<rparr>
      in st\<lparr>emitted := emitted st @
             [\<lparr> em_target = ToRoom (''token:'' @ toLowerCase tokenAddress),
                em_event = ''price-update'', em_payload = update \<rparr>,
              \<lparr> em_target = ToAll,
                em_event = ''global-price-update'', em_payload = update \<rparr>]\<rparr>)"

text \<open>
  A connected session and what reaches it: an emission to a room reaches the sessions that
  joined the room, an emission on \<open>io\<close> itself reaches every connected session.
\<close>

record session =
  socketId :: string
  rooms :: "string list"

definition receives :: "session \<Rightarrow> emission \<Rightarrow> bool" where
  "receives s e = (case em_target e of ToAll \<Rightarrow> True | ToRoom r \<Rightarrow> r \<in> set (rooms s))"

definition inbox :: "session \<Rightarrow> emission list \<Rightarrow> (string \<times> price_update) list" where
  "inbox s es = map (\<lambda>e. (em_event e, em_payload e)) (filter (receives s) es)"

subsection \<open>Price updates\<close>

text \<open>\<open>config.settings.priceUpdateThreshold\<close>, 0.001.\<close>

definition priceUpdateThreshold :: real where
  "priceUpdateThreshold = 1 / 1000"

text \<open>
  \<open>handlePriceUpdate(tokenAddress, swapInfo)\<close>. \<open>dateNow\<close> is the clock read at entry,
  \<open>cacheNow\<close> the later read inside \<open>priceCache.set\<close>, and \<open>newPrice\<close> the awaited result
  of \<open>calculatePrice\<close> on the pools' current state (which catches the errors of its own
  pool reads). The refreshes of the BNB reference and of the agent prices that precede
  \<open>calculatePrice\<close> write only fields that \<open>calculatePrice\<close> reads. \<open>swapInfo\<close> is only
  logged.
\<close>

definition handlePriceUpdate ::
  "(real \<Rightarrow> nat \<Rightarrow> string) \<Rightarrow> int \<Rightarrow> int \<Rightarrow> token_price \<Rightarrow> monitor \<Rightarrow> string \<Rightarrow> monitor" where
  "handlePriceUpdate toFixed dateNow cacheNow newPrice st tokenAddress =
     (case monitoredTokens st tokenAddress of
        None \<Rightarrow> st
      | Some tokenData \<Rightarrow>
          if (case lastUpdateCall tokenData of
                None \<Rightarrow> False
              | Some t \<Rightarrow> t \<noteq> 0 \<and> dateNow - t < 100)
          then st
          else
            (let tokenData1 = tokenData\<lparr>lastUpdateCall := Some dateNow\<rparr>;
                 st1 = st\<lparr>monitoredTokens := (monitoredTokens st)(tokenAddress \<mapsto> tokenData1),
                          stats := (stats st)\<lparr>priceUpdates := priceUpdates (stats st) + 1\<rparr>\<rparr>;
                 st2 = cache_set cacheNow st1 tokenAddress newPrice;
                 oldPrice = (case lastPrice tokenData1 of None \<Rightarrow> 0 | Some p \<Rightarrow> priceUSD p);
                 priceChange = (if oldPrice > 0 then (priceUSD newPrice - oldPrice) / oldPrice else 0)
             in if \<bar>priceChange\<bar> \<ge> priceUpdateThreshold \<or> oldPrice = 0
                then
                  (let tokenData2 = tokenData1\<lparr>lastPrice := Some newPrice,
                                               lastUpdate := Some dateNow\<rparr>;
                       st3 = st2\<lparr>monitoredTokens :=
                                   (monitoredTokens st2)(tokenAddress \<mapsto> tokenData2)\<rparr>
                   in broadcastPrice toFixed st3 tokenAddress newPrice)
                else st2))"

subsection \<open>Price queries\<close>

text \<open>
  \<open>getTokenPrice(tokenAddress)\<close> returns the cache entry, or the stored \<open>lastPrice\<close>, or
  \<open>null\<close>. The fallback looks \<open>monitoredTokens\<close> up under
  \<open>ethers.getAddress(tokenAddress)\<close>, the parameter \<open>getAddress\<close>, which throws on an
  invalid address and otherwise returns the checksum-cased form.
\<close>

datatype price_answer = FromCache cached_price | FromToken token_price

definition getTokenPrice ::
  "(string \<Rightarrow> js_error + string) \<Rightarrow> monitor \<Rightarrow> string \<Rightarrow> (js_error + price_answer option) \<times> monitor" where
  "getTokenPrice getAddress st tokenAddress =
     (case cache_get st tokenAddress of
        Some cached \<Rightarrow>
          (Inr (Some (FromCache cached)),
           st\<lparr>stats := (stats st)\<lparr>cacheHits := cacheHits (stats st) + 1\<rparr>\<rparr>)
      | None \<Rightarrow>
          (let st' = st\<lparr>stats := (stats st)\<lparr>cacheMisses := cacheMisses (stats st) + 1\<rparr>\<rparr>
           in case getAddress tokenAddress of
                Inl e \<Rightarrow> (Inl e, st')
              | Inr k \<Rightarrow>
                  (case monitoredTokens st' k of
                     None \<Rightarrow> (Inr None, st')
                   | Some data \<Rightarrow> (Inr (map_option FromToken (lastPrice data)), st'))))"

subsection \<open>Token removal\<close>

text \<open>
  \<open>removeDynamicToken(tokenAddress)\<close>. The result is \<open>Inr\<close> of the returned boolean or
  \<open>Inl\<close> of the exception thrown, together with the state reached. The loop removes the
  handles whose key starts with \<open>key + ':'\<close>, calling \<open>contract.off\<close> when the handle
  has both a contract and a listener. After \<open>monitoredTokens.delete(key)\<close> the method
  calls \<open>this.priceCache.delete(key)\<close>; \<open>LastPriceCache\<close> has no \<open>delete\<close>, so the call
  throws a \<open>TypeError\<close> and the two statements after it are not reached.
\<close>

definition removeDynamicToken :: "monitor \<Rightarrow> string \<Rightarrow> (js_error + bool) \<times> monitor" where
  "removeDynamicToken st tokenAddress =
     (let key = toLowerCase tokenAddress
      in case monitoredTokens st key of
           None \<Rightarrow> (Inr False, st)
         | Some tokenData \<Rightarrow>
             (let st1 = fold (\<lambda>(listenerKey, listenerData) s.
                          if startsWith listenerKey (key @ '':'')
                          then
                            (let s' = (case ld_listener listenerData of
                                         Some l \<Rightarrow>
                                           if ld_contract listenerData \<noteq> []
                                           then s\<lparr>offCalls := offCalls s @
                                                       [(ld_contract listenerData, l)],
                                                  swapHandlers :=
                                                    remove1 (ld_contract listenerData)
                                                      (swapHandlers s)\<rparr>
                                           else s
                                       | None \<Rightarrow> s)
                             in s'\<lparr>activeListeners := mapDelete (activeListeners s') listenerKey\<rparr>)
                          else s)
                        (activeListeners st) st;
                  st2 = (case mempoolMonitor st1 of
                           None \<Rightarrow> st1
                         | Some m \<Rightarrow>
                             st1\<lparr>mempoolMonitor := Some
                                   (fold (\<lambda>pl m'. if p_address pl \<noteq> []
                                                    then removeMonitoredPool m' (p_address pl)
                                                    else m')
                                      (td_pools tokenData) m)\<rparr>);
                  st3 = st2\<lparr>poolContracts :=
                              fold (\<lambda>pl pcs. if p_address pl \<noteq> []
                                              then mapDelete pcs (p_address pl) else pcs)
                                (td_pools tokenData) (poolContracts st2)\<rparr>;
                  st4 = st3\<lparr>monitoredTokens := (monitoredTokens st3)(key := None)\<rparr>
              in (Inl (TypeError ''this.priceCache.delete is not a function''), st4)))"

text \<open>The emissions added between two states.\<close>

definition newEmissions :: "monitor \<Rightarrow> monitor \<Rightarrow> emission list" where
  "newEmissions st st' = drop (length (emitted st)) (emitted st')"

section \<open>Concrete scenarios\<close>

text \<open>
  A dynamically added token (CAKE) with one V2 pool against WBNB, as
  \<open>addTokenWithConfig\<close> leaves it: the binding is stored under the lower-cased address
  with the initial price \<open>p\<close>, and the price is cached when it is positive.
\<close>

definition tokT :: string where
  "tokT = ''0x0e09fabb73bd3ade0a17ecc321fd13a19e81ce82''"

definition poolT :: string where
  "poolT = ''0x0ed7e52944161450477ee417de9cd3a859b14fd0''"

definition wbnbPoolConfig :: pool_config where
  "wbnbPoolConfig =
     \<lparr> pc_address = poolT, pc_type = V2, pc_version = 2, pc_dex = ''uniswap'',
       pair = ''WBNB'', pairAddress = Some ''0xbb4CdB9CBd36B01bD1cBaEBF2De08d9173bc095c'',
       pairIsAgent = False, description = ''WBNB V2'', priority = 1, pc_fee = None \<rparr>"

definition cakePool :: pool where
  "cakePool =
     \<lparr> p_address = poolT, p_type = V2, token0 = tokT,
       token1 = ''0xbb4cdb9cbd36b01bd1cbaebf2de08d9173bc095c'',
       decimals0 = 18, decimals1 = 18, p_config = wbnbPoolConfig \<rparr>"

definition cakeConfig :: token_config where
  "cakeConfig =
     \<lparr> tc_name = ''Token 0x0e09'', tc_symbol = ''CAKE'', tc_decimals = 18,
       tc_address = tokT, tc_pools = [wbnbPoolConfig] \<rparr>"

definition priceOf :: "real \<Rightarrow> real \<Rightarrow> token_price" where
  "priceOf usd bnb = \<lparr> priceUSD = usd, priceBNB = bnb, meta = None \<rparr>"

definition zeroStats :: metrics where
  "zeroStats = \<lparr> priceUpdates = 0, cacheHits = 0, cacheMisses = 0, apiRequests = 0,
                 wsConnections = 0, eventsReceived = 0 \<rparr>"

definition monitoring :: "token_price \<Rightarrow> monitor" where
  "monitoring p =
     \<lparr> monitoredTokens = [tokT \<mapsto>
           \<lparr> td_config = cakeConfig, td_pools = [cakePool], lastPrice = Some p,
             lastUpdate = Some 1000, lastUpdateCall = None, isDynamic = True \<rparr>],
       poolContracts = [], activeListeners = [],
       priceCache = (if priceUSD p > 0 then [tokT \<mapsto> \<lparr>cp_data = p, cachedAt = 1000\<rparr>]
                     else Map.empty),
       swapListeners = [], mempoolMonitor = None, swapHandlers = [], offCalls = [],
       emitted = [], stats = zeroStats \<rparr>"

text \<open>
  The binding at 1000 USD after one update to 1000.5 USD, a move of 0.05%: the cache
  holds 1000.5 while \<open>lastPrice\<close> is still 1000. \<open>noFormat\<close> stands in for \<open>toFixed\<close>.
\<close>

definition noFormat :: "real \<Rightarrow> nat \<Rightarrow> string" where
  "noFormat r n = []"

definition quietlyUpdated :: monitor where
  "quietlyUpdated =
     handlePriceUpdate noFormat 3000 3001 (priceOf (10005 / 10) (10005 / 6000))
       (monitoring (priceOf 1000 (1000 / 600))) tokT"

text \<open>The same binding once \<open>setupV2Listener\<close> has registered its pool listener.\<close>

definition listening :: "token_price \<Rightarrow> monitor" where
  "listening p = setupV2Listener (monitoring p) cakePool tokT"

text \<open>
  \<open>ethers.getAddress\<close> on the CAKE address: the checksum spelling is the one
  \<open>config.addresses.CAKE\<close> carries.
\<close>

definition getAddress_CAKE :: "string \<Rightarrow> js_error + string" where
  "getAddress_CAKE a =
     (if toLowerCase a = tokT then Inr ''0x0E09FaBB73Bd3Ade0a17ECC321fD13a19e81cE82''
      else Inl (Error ''invalid address''))"

text \<open>A request to add the same token through its V2 pool against BUSD.\<close>

definition poolB :: string where
  "poolB = ''0x804678fa97d91b974ec2af3c843270886528a9e6''"

definition busdInput :: token_input where
  "busdInput =
     \<lparr> ti_tokenAddress = ''0x0E09FaBB73Bd3Ade0a17ECC321fD13a19e81cE82'',
       ti_poolAddress = ''0x804678fa97d91B974ec2af3c843270886528a9E6'',
       ti_pair = ''BUSD'', ti_pairAddress = None, ti_dex = None, ti_version = 2,
       ti_fee = None, ti_priority = None, ti_name = None, ti_symbol = Some ''CAKE'',
       ti_decimals = None \<rparr>"

definition busdPoolConfig :: pool_config where
  "busdPoolConfig =
     \<lparr> pc_address = poolB, pc_type = V2, pc_version = 2, pc_dex = ''uniswap'',
       pair = ''BUSD'', pairAddress = Some ''0xe9e7CEA3DedcA5984780Bafc599bD69ADd087D56'',
       pairIsAgent = False, description = ''BUSD V2'', priority = 1, pc_fee = None \<rparr>"

definition busdPool :: pool where
  "busdPool =
     \<lparr> p_address = poolB, p_type = V2, token0 = tokT,
       token1 = ''0xe9e7cea3dedca5984780bafc599bd69add087d56'',
       decimals0 = 18, decimals1 = 18, p_config = busdPoolConfig \<rparr>"

text \<open>
  Sample sequences for \<open>removeOutliers\<close>, of doubles: nine samples at 0 and one at 10;
  five samples at 2500000000000003 and one at 2500000000000004, where doubles are spaced
  0.5 apart and the running sum passes \<open>2^53\<close>.
\<close>

definition tenSamples :: "real list" where
  "tenSamples = [0, 0, 0, 0, 0, 0, 0, 0, 0, 10]"

definition bigSamples :: "real list" where
  "bigSamples = [2500000000000003, 2500000000000003, 2500000000000003, 2500000000000003,
                 2500000000000003, 2500000000000004]"

text \<open>
  Double arithmetic on the runs of \<open>removeOutliers\<close> over these two sequences. An
  operation on doubles returns the exact result rounded to the nearest double (ties to
  even). In these runs two exact results are not doubles: the sum 12500000000000015 lies
  halfway between the doubles 12500000000000014 and 12500000000000016 and goes to the
  even one, and the quotient 15000000000000020 / 6 goes to the nearest multiple of 0.5.
  Every other result of the two runs is a double and is returned as it is.
  \<open>Math.pow\<close> is only called with the exponent 2. Calls on at most two samples, which
  return their input before any operation, are given the same arithmetic.
\<close>

definition roundNearest :: "real \<Rightarrow> real" where
  "roundNearest x =
     (if x = 12500000000000015 then 12500000000000016
      else if x = 15000000000000020 / 6 then 5000000000000007 / 2
      else x)"

definition doubleMath :: "real js_math" where
  "doubleMath =
     \<lparr> js_num = real,
       js_add = (\<lambda>x y. roundNearest (x + y)),
       js_sub = (\<lambda>x y. roundNearest (x - y)),
       js_mul = (\<lambda>x y. roundNearest (x * y)),
       js_div = (\<lambda>x y. roundNearest (x / y)),
       Math_pow = (\<lambda>x y. roundNearest (x ^ nat \<lfloor>y\<rfloor>)),
       Math_sqrt = (\<lambda>x. roundNearest (sqrt x)),
       Math_abs = abs,
       js_le = (\<le>) \<rparr>"

text \<open>
  Numbers that are finite or NaN (\<open>None\<close>), with the operations exact on the finite ones:
  NaN is absorbing and every comparison with it is false. A division by zero and the root
  of a negative number are given as NaN; neither occurs in the run below, on a sequence
  that holds a NaN.
\<close>

definition nanMath :: "real option js_math" where
  "nanMath =
     \<lparr> js_num = (\<lambda>n. Some (real n)),
       js_add = (\<lambda>x y. case (x, y) of (Some a, Some b) \<Rightarrow> Some (a + b) | _ \<Rightarrow> None),
       js_sub = (\<lambda>x y. case (x, y) of (Some a, Some b) \<Rightarrow> Some (a - b) | _ \<Rightarrow> None),
       js_mul = (\<lambda>x y. case (x, y) of (Some a, Some b) \<Rightarrow> Some (a * b) | _ \<Rightarrow> None),
       js_div = (\<lambda>x y. case (x, y) of
                         (Some a, Some b) \<Rightarrow> if b = 0 then None else Some (a / b)
                       | _ \<Rightarrow> None),
       Math_pow = (\<lambda>x y. case (x, y) of
                           (Some a, Some b) \<Rightarrow> Some (a ^ nat \<lfloor>b\<rfloor>)
                         | _ \<Rightarrow> None),
       Math_sqrt = (\<lambda>x. case x of
                          Some a \<Rightarrow> if a < 0 then None else Some (sqrt a)
                        | None \<Rightarrow> None),
       Math_abs = map_option abs,
       js_le = (\<lambda>x y. case (x, y) of (Some a, Some b) \<Rightarrow> a \<le> b | _ \<Rightarrow> False) \<rparr>"

definition nanSamples :: "real option list" where
  "nanSamples = [Some 1, None, Some 2]"

text \<open>
  Two agent tokens priced through each other: A has one source paired with B, B has one
  source paired with A. One A is worth 2 B in A's pool, one B is worth 1/2 A in B's.
\<close>

definition agentA :: string where
  "agentA = ''0x00000000000000000000000000000000000000aa''"

definition agentB :: string where
  "agentB = ''0x00000000000000000000000000000000000000bb''"

definition configA :: agent_config where
  "configA = \<lparr> ac_symbol = ''A'',
               priceSources = [\<lparr> src_address = ''0x00000000000000000000000000000000000000ab'',
                                 src_type = V2, src_pair = ''B'',
                                 src_pairAddress = Some agentB \<rparr>] \<rparr>"

definition configB :: agent_config where
  "configB = \<lparr> ac_symbol = ''B'',
               priceSources = [\<lparr> src_address = ''0x00000000000000000000000000000000000000ba'',
                                 src_type = V2, src_pair = ''A'',
                                 src_pairAddress = Some agentA \<rparr>] \<rparr>"

definition cycleEnv :: agent_env where
  "cycleEnv =
     \<lparr> agentTokens = [(agentA, configA), (agentB, configB)],
       agentPriceCacheTTL = 10000,
       bnbPrice = 600,
       poolPrice = (\<lambda>source a. if a = agentA then Inr 2 else Inr (1 / 2)),
       now = 1000,
       math = doubleMath \<rparr>"

definition noAgentPrices :: agent_state where
  "noAgentPrices = \<lparr> agentTokenPrices = Map.empty, warnings = [] \<rparr>"

text \<open>
  A mempool monitor watching the CAKE pool, a provider that knows one pending direct
  V2 swap on it, and a block header delivered on the pending-transaction channel.
\<close>

definition swapHash :: string where
  "swapHash = ''0x1111111111111111111111111111111111111111111111111111111111111111''"

definition swapTx :: tx where
  "swapTx =
     \<lparr> tx_hash = swapHash, tx_to = Some ''0x0eD7e52944161450477ee417DE9Cd3a859b14fD0'',
       tx_from = ''0x00000000000000000000000000000000000000cc'',
       tx_data = ''0x022c0d9f00'', tx_gasPrice = None, tx_gasLimit = None \<rparr>"

definition provider :: mempool_env where
  "provider =
     \<lparr> getTransaction = (\<lambda>h. if h = swapHash then Inr (Some swapTx) else Inr None),
       parseTransaction = (\<lambda>d. Inr (Some (5, 0))),
       mm_now = 2000 \<rparr>"

definition watchingPool :: mempool where
  "watchingPool =
     \<lparr> pendingSwaps = [],
       monitoredPools = [(poolT, \<lparr> mp_tokenAddress = tokT, mp_poolAddress = poolT,
                                  mp_protocol = ''uniswapv2'', mp_userAddress = None,
                                  mp_isToken0 = None, mp_addedAt = 1000 \<rparr>)],
       mm_metrics = \<lparr> pendingDetected = 0, confirmed = 0, failed = 0, replaced = 0,
                      timedOut = 0 \<rparr>,
       isMonitoring = True, swapClientConnected = True, mm_emitted = [], mm_watching = [] \<rparr>"

definition blockHeader :: js_value where
  "blockHeader =
     JObject [(''number'', JString ''0x2faf080''),
              (''hash'', JString swapHash),
              (''miner'', JString ''0x00000000000000000000000000000000000000dd'')]"

section \<open>Theorems\<close>

subsection \<open>Auxiliary facts\<close>

lemma toLowerCase_tokT: "toLowerCase tokT = tokT"
  by (simp add: tokT_def toLowerCase_def toLowerCaseChar_def)

lemma toLowerCase_poolT: "toLowerCase poolT = poolT"
  by (simp add: poolT_def toLowerCase_def toLowerCaseChar_def)

lemma agent_addresses:
  "toLowerCase agentA = agentA" "toLowerCase agentB = agentB"
  "agentA \<noteq> agentB" "agentB \<noteq> agentA" "agentA \<noteq> []" "agentB \<noteq> []"
  by (simp_all add: agentA_def agentB_def toLowerCase_def toLowerCaseChar_def)

lemma fold_preserves:
  assumes "\<And>x s. f (g x s) = f s"
  shows "f (fold g xs s) = f s"
  by (induction xs arbitrary: s) (simp_all add: assms)

lemma fold_unchanged:
  assumes "\<And>x s. x \<in> set xs \<Longrightarrow> g x s = s"
  shows "fold g xs s = s"
  using assms by (induction xs arbitrary: s) simp_all

lemma listening_simps:
  "activeListeners (listening p) =
      [(poolT @ ''-'' @ tokT,
        \<lparr> ld_contract = poolT, ld_tokenAddress = tokT, ld_poolType = ''V2'', ld_listener = None \<rparr>)]"
  "monitoredTokens (listening p) = monitoredTokens (monitoring p)"
  "priceCache (listening p) = priceCache (monitoring p)"
  "mempoolMonitor (listening p) = None"
  "offCalls (listening p) = []"
  "swapHandlers (listening p) = [poolT]"
  by (simp_all add: listening_def setupV2Listener_def Let_def cakePool_def toLowerCase_tokT
        toLowerCase_poolT mapSet_def monitoring_def)

lemma listener_key_not_prefixed: "\<not> startsWith (poolT @ CHR ''-'' # tokT) (tokT @ '':'')"
  by (simp add: startsWith_def poolT_def tokT_def)

subsection \<open>Pair to USD conversion\<close>

text \<open>For the three stables the conversion tests for, the pair price is the USD price.\<close>

lemma convertToUSD_stable:
  "pair (p_config pl) \<in> {''USDT'', ''USDC'', ''DAI''} \<Longrightarrow>
     convertToUSD E st x pl isToken0 = ((x, x / bnbPrice E), st)"
  by (auto simp: convertToUSD_def Let_def)

text \<open>
  C1. The claim is that a pool whose pair symbol is USDT, USDC, BUSD or DAI converts with
  \<open>priceUSD = priceInPair\<close> and \<open>priceBNB = priceUSD / bnbUSD\<close>, a BUSD pool in particular.
  The code does not do this for BUSD: \<open>buildTokenConfig\<close> classifies BUSD as a non-agent
  pair, and \<open>convertToUSD\<close>, whose stable test lists only USDC, USDT and DAI, then falls
  to its unknown-pair branch and returns the zero price for a pair price of 1.02.
\<close>

theorem convertToUSD_BUSD_zero:
  "map_sum id tc_pools (buildTokenConfig getAddress busdInput tokT poolB) = Inr [busdPoolConfig]
   \<and> fst (convertToUSD E st (102 / 100) busdPool True) = (0, 0)
   \<and> warnings (snd (convertToUSD E st (102 / 100) busdPool True))
        = warnings st @ [''Unknown pair type: BUSD'']"
  by (simp add: buildTokenConfig_def busdInput_def busdPoolConfig_def config_addresses_def
        convertToUSD_def busdPool_def toLowerCase_def toLowerCaseChar_def Let_def)

subsection \<open>Token removal\<close>

text \<open>
  Whatever the state and the address, \<open>removeDynamicToken\<close> never returns \<open>true\<close> and
  never changes the price cache.
\<close>

lemma removeDynamicToken_never_true: "fst (removeDynamicToken st a) \<noteq> Inr True"
  by (simp add: removeDynamicToken_def Let_def split: option.splits)

lemma removeDynamicToken_priceCache: "priceCache (snd (removeDynamicToken st a)) = priceCache st"
proof (cases "monitoredTokens st (toLowerCase a)")
  case None
  then show ?thesis by (simp add: removeDynamicToken_def Let_def)
next
  case (Some td)
  have pc: "priceCache (fold g xs st) = priceCache st"
    if "\<And>x s. priceCache (g x s) = priceCache s"
    for g :: "string \<times> listener_data \<Rightarrow> monitor \<Rightarrow> monitor" and xs
    using that by (rule fold_preserves)
  show ?thesis
    using Some
    by (simp add: removeDynamicToken_def Let_def split: option.splits)
       (auto intro!: pc split: option.splits prod.splits)
qed

text \<open>
  A key without a colon never has the prefix the removal loop looks for, and when no key
  has it the loop leaves the registry, the attached handlers and the list of teardown
  calls as they were.
\<close>

lemma no_colon_not_prefixed: "CHR '':'' \<notin> set k \<Longrightarrow> \<not> startsWith k (p @ '':'')"
proof
  assume a: "CHR '':'' \<notin> set k" and b: "startsWith k (p @ '':'')"
  from b have "take (length (p @ '':'')) k = p @ '':''" by (simp add: startsWith_def)
  then have "CHR '':'' \<in> set (take (length (p @ '':'')) k)" by simp
  then have "CHR '':'' \<in> set k" by (rule in_set_takeD)
  with a show False by simp
qed

lemma removeDynamicToken_activeListeners:
  assumes "\<And>k d. (k, d) \<in> set (activeListeners st) \<Longrightarrow> \<not> startsWith k (toLowerCase a @ '':'')"
  shows "activeListeners (snd (removeDynamicToken st a)) = activeListeners st"
    and "offCalls (snd (removeDynamicToken st a)) = offCalls st"
    and "swapHandlers (snd (removeDynamicToken st a)) = swapHandlers st"
proof -
  let ?g = "\<lambda>(listenerKey, listenerData) s.
              if startsWith listenerKey (toLowerCase a @ '':'')
              then
                (let s' = (case ld_listener listenerData of
                             Some l \<Rightarrow>
                               if ld_contract listenerData \<noteq> []
                               then s\<lparr>offCalls := offCalls s @ [(ld_contract listenerData, l)],
                                      swapHandlers :=
                                        remove1 (ld_contract listenerData) (swapHandlers s)\<rparr>
                               else s
                           | None \<Rightarrow> s)
                 in s'\<lparr>activeListeners := mapDelete (activeListeners s') listenerKey\<rparr>)
              else s"
  have f: "fold ?g (activeListeners st) st = st"
    by (rule fold_unchanged) (use assms in auto)
  show "activeListeners (snd (removeDynamicToken st a)) = activeListeners st"
    "offCalls (snd (removeDynamicToken st a)) = offCalls st"
    "swapHandlers (snd (removeDynamicToken st a)) = swapHandlers st"
    by (simp_all add: removeDynamicToken_def Let_def f split: option.splits)
qed

text \<open>
  The monitored token whose listener \<open>setupV2Listener\<close> registered under
  \<open>lower(pool) + '-' + lower(token)\<close>: the removal loop tests the keys for the prefix
  \<open>lower(token) + ':'\<close>, matches nothing, calls no \<open>contract.off\<close>, leaves the handle in
  the registry and the \<open>Swap\<close> handler attached, and the method ends in the
  \<open>TypeError\<close>.
\<close>

lemma removeDynamicToken_keeps_listener:
  "activeListeners (listening p) =
      [(poolT @ ''-'' @ tokT,
        \<lparr> ld_contract = poolT, ld_tokenAddress = tokT, ld_poolType = ''V2'', ld_listener = None \<rparr>)]
   \<and> fst (removeDynamicToken (listening p) tokT)
        = Inl (TypeError ''this.priceCache.delete is not a function'')
   \<and> activeListeners (snd (removeDynamicToken (listening p) tokT))
        = activeListeners (listening p)
   \<and> offCalls (snd (removeDynamicToken (listening p) tokT)) = []
   \<and> swapHandlers (snd (removeDynamicToken (listening p) tokT)) = [poolT]"
  by (simp add: removeDynamicToken_def toLowerCase_tokT listening_simps
        listener_key_not_prefixed Let_def monitoring_def)

text \<open>
  C3. The claim is that \<open>removeDynamicToken(T)\<close> evicts T from the price cache without
  raising and that \<open>getTokenPrice(T)\<close> then returns null. The code does not do this: for
  the monitored token with cached price 100 the call raises a \<open>TypeError\<close> at
  \<open>this.priceCache.delete\<close>, the cache entry stays, and \<open>getTokenPrice\<close> afterwards
  answers with that entry.
\<close>

theorem removeDynamicToken_throws_keeps_cache:
  "fst (removeDynamicToken (listening (priceOf 100 (1 / 6))) tokT)
        = Inl (TypeError ''this.priceCache.delete is not a function'')
   \<and> priceCache (snd (removeDynamicToken (listening (priceOf 100 (1 / 6))) tokT)) tokT
        = Some \<lparr>cp_data = priceOf 100 (1 / 6), cachedAt = 1000\<rparr>
   \<and> fst (getTokenPrice getAddress (snd (removeDynamicToken (listening (priceOf 100 (1 / 6))) tokT)) tokT)
        = Inr (Some (FromCache \<lparr>cp_data = priceOf 100 (1 / 6), cachedAt = 1000\<rparr>))"
  by (simp add: removeDynamicToken_def toLowerCase_tokT listening_simps
        listener_key_not_prefixed Let_def monitoring_def getTokenPrice_def cache_get_def
        priceOf_def)

subsection \<open>Address keys\<close>

text \<open>
  C4. The claim is that every address-keyed lookup uses the lower-case form, the fallback
  of \<open>getTokenPrice\<close> in particular. The code does not do this: the fallback looks
  \<open>monitoredTokens\<close> up under \<open>ethers.getAddress(tokenAddress)\<close>. For the monitored token
  whose zero initial price was stored but not cached, the binding sits under the
  lower-case key, the lookup key is the checksum spelling, and the answer is null.
\<close>

theorem getTokenPrice_fallback_checksum_key:
  "map_option lastPrice (monitoredTokens (monitoring (priceOf 0 0)) (toLowerCase tokT))
        = Some (Some (priceOf 0 0))
   \<and> cache_get (monitoring (priceOf 0 0)) tokT = None
   \<and> getAddress_CAKE tokT = Inr ''0x0E09FaBB73Bd3Ade0a17ECC321fD13a19e81cE82''
   \<and> ''0x0E09FaBB73Bd3Ade0a17ECC321fD13a19e81cE82'' \<noteq> toLowerCase tokT
   \<and> fst (getTokenPrice getAddress_CAKE (monitoring (priceOf 0 0)) tokT) = Inr None"
  by (simp add: toLowerCase_tokT monitoring_def priceOf_def cache_get_def getAddress_CAKE_def
        getTokenPrice_def Let_def) (simp add: tokT_def)

subsection \<open>Outlier rejection\<close>

text \<open>The source's computation, in terms of the computed mean, deviation and test.\<close>

lemma removeOutliers_unfold:
  "removeOutliers M P =
     (if length P \<le> 2 then P
      else if filter (passesTest M P) P = [] then P
      else filter (passesTest M P) P)"
  by (simp add: removeOutliers_def passesTest_def [abs_def] computedMean_def
        computedStdDev_def Let_def)

text \<open>The runs on the sample sequences.\<close>

lemma sqrt_values: "sqrt 9 = 3" "sqrt (1 / 4) = 1 / 2"
  by (rule real_sqrt_unique; simp add: power2_eq_square)+

lemma doubleMath_ops:
  "js_num doubleMath n = real n"
  "js_add doubleMath x y = roundNearest (x + y)"
  "js_sub doubleMath x y = roundNearest (x - y)"
  "js_mul doubleMath x y = roundNearest (x * y)"
  "js_div doubleMath x y = roundNearest (x / y)"
  "Math_pow doubleMath x y = roundNearest (x ^ nat \<lfloor>y\<rfloor>)"
  "Math_sqrt doubleMath x = roundNearest (sqrt x)"
  "Math_abs doubleMath x = \<bar>x\<bar>"
  "js_le doubleMath x y = (x \<le> y)"
  by (simp_all add: doubleMath_def)

lemma roundNearest_inexact:
  "roundNearest 12500000000000015 = 12500000000000016"
  "roundNearest (7500000000000010 / 3) = 5000000000000007 / 2"
  by (simp_all add: roundNearest_def)

lemma roundNearest_exact:
  "x \<noteq> 12500000000000015 \<Longrightarrow> x \<noteq> 7500000000000010 / 3 \<Longrightarrow> roundNearest x = x"
  by (simp add: roundNearest_def)

lemma tenSamples_run:
  "computedMean doubleMath tenSamples = 1"
  "computedStdDev doubleMath tenSamples = 3"
  "filter (passesTest doubleMath tenSamples) tenSamples = [0, 0, 0, 0, 0, 0, 0, 0, 0]"
proof -
  show m: "computedMean doubleMath tenSamples = 1"
    by (simp add: computedMean_def tenSamples_def doubleMath_ops roundNearest_exact)
  show d: "computedStdDev doubleMath tenSamples = 3"
    unfolding computedStdDev_def m
    by (simp add: tenSamples_def doubleMath_ops roundNearest_exact sqrt_values)
  show "filter (passesTest doubleMath tenSamples) tenSamples = [0, 0, 0, 0, 0, 0, 0, 0, 0]"
    unfolding passesTest_def [abs_def] m d
    by (simp add: tenSamples_def doubleMath_ops roundNearest_exact)
qed

lemma bigSamples_run:
  "computedMean doubleMath bigSamples = 5000000000000007 / 2"
  "computedStdDev doubleMath bigSamples = 1 / 2"
  "filter (passesTest doubleMath bigSamples) bigSamples = bigSamples"
proof -
  show m: "computedMean doubleMath bigSamples = 5000000000000007 / 2"
    by (simp add: computedMean_def bigSamples_def doubleMath_ops roundNearest_exact
          roundNearest_inexact)
  show d: "computedStdDev doubleMath bigSamples = 1 / 2"
    unfolding computedStdDev_def m
    by (simp add: bigSamples_def doubleMath_ops roundNearest_exact sqrt_values power_divide)
  show "filter (passesTest doubleMath bigSamples) bigSamples = bigSamples"
    unfolding passesTest_def [abs_def] m d
    by (simp add: bigSamples_def doubleMath_ops roundNearest_exact)
qed

lemma nanSamples_run:
  "computedMean nanMath nanSamples = None"
  "computedStdDev nanMath nanSamples = None"
  "filter (passesTest nanMath nanSamples) nanSamples = []"
proof -
  show m: "computedMean nanMath nanSamples = None"
    by (simp add: computedMean_def nanSamples_def nanMath_def)
  show d: "computedStdDev nanMath nanSamples = None"
    unfolding computedStdDev_def m
    by (simp add: nanSamples_def nanMath_def)
  show "filter (passesTest nanMath nanSamples) nanSamples = []"
    unfolding passesTest_def [abs_def] m d
    by (simp add: nanSamples_def nanMath_def)
qed

text \<open>
  C5, the claim as stated fails. Read with the exact mean and deviation of the samples,
  the bound does not hold of every retained sample: on the six samples near
  \<open>2.5 * 10^15\<close> the sum rounds up and the computed mean is 2500000000000003.5, every
  computed deviation is 0.5 against a computed bound of 1, so all six samples pass the
  test and are returned; but the exact mean is \<open>2500000000000003 + 1/6\<close> and the exact
  deviation \<open>sqrt (5/36)\<close>, and the retained sample 2500000000000004 lies 5/6 from the
  mean, more than twice the deviation.
\<close>

theorem removeOutliers_exact_bound_counterexample:
  "2 < length bigSamples
   \<and> filter (passesTest doubleMath bigSamples) bigSamples = bigSamples
   \<and> removeOutliers doubleMath bigSamples = bigSamples
   \<and> 2500000000000004 \<in> set (removeOutliers doubleMath bigSamples)
   \<and> 2 * stddev bigSamples < \<bar>2500000000000004 - mean bigSamples\<bar>"
proof -
  have len: "2 < length bigSamples"
    by (simp add: bigSamples_def)
  have ne: "bigSamples \<noteq> []"
    by (simp add: bigSamples_def)
  have out: "removeOutliers doubleMath bigSamples = bigSamples"
    using len ne by (simp add: removeOutliers_unfold bigSamples_run)
  have mem: "2500000000000004 \<in> set bigSamples"
    by (simp add: bigSamples_def)
  have m: "mean bigSamples = 15000000000000019 / 6"
    by (simp add: mean_def bigSamples_def)
  have v: "stddev bigSamples = sqrt (5 / 36)"
    by (simp add: stddev_def m) (simp add: bigSamples_def power2_eq_square)
  have "sqrt (5 / 36) < sqrt ((5 / 12) ^ 2)"
    by (subst real_sqrt_less_iff) (simp add: power2_eq_square)
  then have s: "sqrt (5 / 36) < 5 / 12"
    by simp
  have "2 * stddev bigSamples < \<bar>2500000000000004 - mean bigSamples\<bar>"
    unfolding v m using s by simp
  then show ?thesis
    using len out mem bigSamples_run(3) by simp
qed

text \<open>
  C5, as amended. For every non-empty sequence \<open>P\<close> of price samples and whatever the
  arithmetic: with at most two samples the output is \<open>P\<close>; otherwise the output is a
  subsequence of \<open>P\<close>, it consists of the samples that pass the test
  \<open>|p - mean| <= 2 * stdDev\<close> as the program evaluates it, with the mean and the deviation
  it computed, when there are any (so each retained sample passes that test), and it is
  \<open>P\<close> when there are none; the output is never empty.
\<close>

theorem removeOutliers_spec:
  assumes "P \<noteq> []"
  shows "(length P \<le> 2 \<longrightarrow> removeOutliers M P = P)
    \<and> (2 < length P \<longrightarrow>
          subseq (removeOutliers M P) P
          \<and> (filter (passesTest M P) P \<noteq> [] \<longrightarrow>
               removeOutliers M P = filter (passesTest M P) P
               \<and> (\<forall>p \<in> set (removeOutliers M P). passesTest M P p))
          \<and> (filter (passesTest M P) P = [] \<longrightarrow> removeOutliers M P = P))
    \<and> removeOutliers M P \<noteq> []"
  using assms by (auto simp: removeOutliers_unfold)

text \<open>
  In double arithmetic, of the ten samples the one at 10 fails the test (mean 1,
  deviation 3) and the nine others are returned, and two samples are returned as they
  are; of the three samples with a NaN none passes the test and all three are returned.
\<close>

theorem removeOutliers_spec_witness:
  "tenSamples \<noteq> [] \<and> 2 < length tenSamples
   \<and> filter (passesTest doubleMath tenSamples) tenSamples = [0, 0, 0, 0, 0, 0, 0, 0, 0]
   \<and> removeOutliers doubleMath tenSamples = [0, 0, 0, 0, 0, 0, 0, 0, 0]
   \<and> nanSamples \<noteq> [] \<and> 2 < length nanSamples
   \<and> filter (passesTest nanMath nanSamples) nanSamples = []
   \<and> removeOutliers nanMath nanSamples = nanSamples
   \<and> [1, 3 :: real] \<noteq> [] \<and> length [1, 3 :: real] \<le> 2
   \<and> removeOutliers doubleMath [1, 3] = [1, 3]"
proof -
  have ne: "tenSamples \<noteq> []" and len: "2 < length tenSamples"
    by (simp_all add: tenSamples_def)
  have f: "filter (passesTest doubleMath tenSamples) tenSamples \<noteq> []"
    by (simp add: tenSamples_run)
  from removeOutliers_spec [OF ne, of doubleMath] len f
  have ten: "removeOutliers doubleMath tenSamples = [0, 0, 0, 0, 0, 0, 0, 0, 0]"
    by (simp add: tenSamples_run)
  have ne': "nanSamples \<noteq> []" and len': "2 < length nanSamples"
    by (simp_all add: nanSamples_def)
  from removeOutliers_spec [OF ne', of nanMath] len' nanSamples_run(3)
  have nan: "removeOutliers nanMath nanSamples = nanSamples"
    by blast
  have ne2: "[1, 3 :: real] \<noteq> []" and len2: "length [1, 3 :: real] \<le> 2"
    by simp_all
  from removeOutliers_spec [OF ne2, of doubleMath] len2
  have small: "removeOutliers doubleMath [1, 3] = [1, 3]"
    by blast
  show ?thesis
    using ne len tenSamples_run(3) ten ne' len' nanSamples_run(3) nan ne2 len2 small
    by blast
qed

subsection \<open>Broadcast threshold\<close>

text \<open>A call inside the 100 ms window changes nothing.\<close>

lemma handlePriceUpdate_coalesced:
  "monitoredTokens st a = Some td \<Longrightarrow> lastUpdateCall td = Some t \<Longrightarrow> t \<noteq> 0 \<Longrightarrow>
     dateNow - t < 100 \<Longrightarrow> handlePriceUpdate toFixed dateNow cacheNow new st a = st"
  by (simp add: handlePriceUpdate_def)

lemma quietlyUpdated_simps:
  "monitoredTokens quietlyUpdated tokT =
     Some \<lparr> td_config = cakeConfig, td_pools = [cakePool],
            lastPrice = Some (priceOf 1000 (1000 / 600)),
            lastUpdate = Some 1000, lastUpdateCall = Some 3000, isDynamic = True \<rparr>"
  "priceCache quietlyUpdated tokT =
     Some \<lparr>cp_data = priceOf (10005 / 10) (10005 / 6000), cachedAt = 3001\<rparr>"
  "emitted quietlyUpdated = []"
  by (simp_all add: quietlyUpdated_def handlePriceUpdate_def monitoring_def priceOf_def
        cache_set_def toLowerCase_tokT priceUpdateThreshold_def Let_def)

text \<open>
  C6, the claim as stated fails. With \<open>old\<close> the prior cached price, the broadcast does
  not follow the stated condition: after the quiet update the cache holds 1000.5 and
  \<open>lastPrice\<close> still 1000; an update to 1001.2 moves the price by 0.07% of the cached
  price, below the threshold of 0.1%, yet it is broadcast, because the code measures the
  move from \<open>lastPrice\<close>, 0.12%.
\<close>

theorem handlePriceUpdate_cached_price_counterexample:
  "map_option (priceUSD \<circ> cp_data) (priceCache quietlyUpdated tokT) = Some (10005 / 10)
   \<and> (10005 / 10 :: real) \<noteq> 0
   \<and> \<bar>(priceUSD (priceOf (10012 / 10) (10012 / 6000)) - 10005 / 10) / (10005 / 10)\<bar>
        < priceUpdateThreshold
   \<and> map em_event
        (newEmissions quietlyUpdated
           (handlePriceUpdate noFormat 5000 5001 (priceOf (10012 / 10) (10012 / 6000))
              quietlyUpdated tokT))
       = [''price-update'', ''global-price-update'']"
  by (simp add: quietlyUpdated_simps handlePriceUpdate_def priceOf_def cache_set_def
        broadcastPrice_def newEmissions_def priceUpdateThreshold_def Let_def)

text \<open>
  C6, as amended. For a monitored token and a price update that is not coalesced, with
  \<open>old\<close> the USD price of the binding's \<open>lastPrice\<close>, the price last broadcast (0 when
  there is none), and \<open>new\<close> the freshly computed price: the price cache holds \<open>new\<close>
  afterwards in every case; a \<open>price-update\<close> is emitted if and only if \<open>old = 0\<close>, or
  \<open>old > 0\<close> and \<open>|(new - old) / old| \<ge> priceUpdateThreshold\<close>; when it is, \<open>lastPrice\<close>
  becomes \<open>new\<close>; when it is not, \<open>lastPrice\<close> is unchanged and nothing is emitted.
\<close>

theorem handlePriceUpdate_threshold:
  assumes "monitoredTokens st a = Some td"
    and "\<forall>t. lastUpdateCall td = Some t \<longrightarrow> t = 0 \<or> 100 \<le> dateNow - t"
    and "old = (case lastPrice td of None \<Rightarrow> 0 | Some p \<Rightarrow> priceUSD p)"
    and "st' = handlePriceUpdate toFixed dateNow cacheNow new st a"
  shows "priceCache st' (toLowerCase a) = Some \<lparr>cp_data = new, cachedAt = cacheNow\<rparr>
    \<and> ((\<exists>e \<in> set (newEmissions st st'). em_event e = ''price-update'')
          \<longleftrightarrow> (old = 0 \<or> 0 < old \<and> \<bar>(priceUSD new - old) / old\<bar> \<ge> priceUpdateThreshold))
    \<and> (old = 0 \<or> 0 < old \<and> \<bar>(priceUSD new - old) / old\<bar> \<ge> priceUpdateThreshold \<longrightarrow>
          (\<exists>upd. pu_data upd = new
             \<and> newEmissions st st' =
                 [\<lparr> em_target = ToRoom (''token:'' @ toLowerCase a),
                    em_event = ''price-update'', em_payload = upd \<rparr>,
                  \<lparr> em_target = ToAll, em_event = ''global-price-update'', em_payload = upd \<rparr>])
          \<and> map_option lastPrice (monitoredTokens st' a) = Some (Some new))
    \<and> (\<not> (old = 0 \<or> 0 < old \<and> \<bar>(priceUSD new - old) / old\<bar> \<ge> priceUpdateThreshold) \<longrightarrow>
          map_option lastPrice (monitoredTokens st' a) = Some (lastPrice td)
          \<and> emitted st' = emitted st)"
proof -
  have nc: "\<not> (case lastUpdateCall td of None \<Rightarrow> False | Some t \<Rightarrow> t \<noteq> 0 \<and> dateNow - t < 100)"
    using assms(2) by (auto split: option.splits)
  show ?thesis
  proof (cases "old = 0 \<or> 0 < old \<and> \<bar>(priceUSD new - old) / old\<bar> \<ge> priceUpdateThreshold")
    case True
    then show ?thesis
      using assms(1,3,4) nc
      by (auto simp: handlePriceUpdate_def Let_def cache_set_def broadcastPrice_def
            newEmissions_def priceUpdateThreshold_def split: option.splits)
  next
    case False
    then show ?thesis
      using assms(1,3,4) nc
      by (auto simp: handlePriceUpdate_def Let_def cache_set_def broadcastPrice_def
            newEmissions_def priceUpdateThreshold_def split: option.splits)
  qed
qed

text \<open>
  The binding after the quiet update, where the cache (1000.5) and \<open>lastPrice\<close> (1000)
  differ, repriced to 1001.2: 0.12% above \<open>lastPrice\<close>, cached and broadcast.
\<close>

theorem handlePriceUpdate_threshold_witness:
  "monitoredTokens quietlyUpdated tokT =
       Some \<lparr> td_config = cakeConfig, td_pools = [cakePool],
              lastPrice = Some (priceOf 1000 (1000 / 600)),
              lastUpdate = Some 1000, lastUpdateCall = Some 3000, isDynamic = True \<rparr>
   \<and> (100::int) \<le> 5000 - 3000
   \<and> (0::real) < 1000
   \<and> \<bar>(priceUSD (priceOf (10012 / 10) (10012 / 6000)) - 1000) / 1000\<bar> \<ge> priceUpdateThreshold
   \<and> priceCache (handlePriceUpdate noFormat 5000 5001 (priceOf (10012 / 10) (10012 / 6000))
                    quietlyUpdated tokT) tokT
       = Some \<lparr>cp_data = priceOf (10012 / 10) (10012 / 6000), cachedAt = 5001\<rparr>
   \<and> (\<exists>e \<in> set (newEmissions quietlyUpdated
                     (handlePriceUpdate noFormat 5000 5001 (priceOf (10012 / 10) (10012 / 6000))
                        quietlyUpdated tokT)).
          em_event e = ''price-update'')
   \<and> map_option lastPrice
        (monitoredTokens (handlePriceUpdate noFormat 5000 5001
                            (priceOf (10012 / 10) (10012 / 6000)) quietlyUpdated tokT) tokT)
       = Some (Some (priceOf (10012 / 10) (10012 / 6000)))"
proof -
  let ?td = "\<lparr> td_config = cakeConfig, td_pools = [cakePool],
              lastPrice = Some (priceOf 1000 (1000 / 600)),
              lastUpdate = Some 1000, lastUpdateCall = Some 3000, isDynamic = True \<rparr>"
  have h1: "monitoredTokens quietlyUpdated tokT = Some ?td"
    by (rule quietlyUpdated_simps)
  have h2: "\<forall>t. lastUpdateCall ?td = Some t \<longrightarrow> t = 0 \<or> 100 \<le> (5000::int) - t"
    by simp
  have h3: "(1000::real) = (case lastPrice ?td of None \<Rightarrow> 0 | Some p \<Rightarrow> priceUSD p)"
    by (simp add: priceOf_def)
  have pos: "(0::real) < 1000"
    by simp
  have c: "\<bar>(priceUSD (priceOf (10012 / 10) (10012 / 6000)) - 1000) / 1000\<bar> \<ge> priceUpdateThreshold"
    by (simp add: priceOf_def priceUpdateThreshold_def)
  from handlePriceUpdate_threshold [OF h1 h2 h3 refl,
      of noFormat 5001 "priceOf (10012 / 10) (10012 / 6000)"] c h1 pos
  show ?thesis
    by (simp add: toLowerCase_tokT)
qed

subsection \<open>Agent token pricing\<close>

text \<open>A call that re-enters an address on the call stack returns 0 and logs the cycle.\<close>

lemma getAgentTokenPrice_reentry:
  "a \<in> set callStack \<Longrightarrow> a \<noteq> [] \<Longrightarrow>
     getAgentTokenPrice E st (Some a) callStack =
       (0, st\<lparr>warnings := warnings st @
                 [''Circular dependency in getAgentTokenPrice: '' @ joinArrow callStack
                    @ '' -> '' @ a]\<rparr>)"
  by (simp add: getAgentTokenPrice.simps)

text \<open>
  C7. The claim is that the resolution terminates on a cyclic \<open>pairAddress\<close> graph and that
  a branch re-entering an address on the call stack returns 0, contributes nothing to the
  average, and is logged. Termination holds (both functions are total, by the measure
  given with their definition), the re-entering call returns 0 and the cycle is logged;
  but the code does not keep the branch out of the average: with A priced through B and
  B through A, the nested result 0 leaves the source's pair-denominated price unconverted,
  it is collected as if it were USD, and A resolves to 1 instead of 0.
\<close>

theorem calculateAgentTokenPrice_cycle_contributes:
  "fst (getAgentTokenPrice cycleEnv noAgentPrices (Some agentA) [agentA, agentB]) = 0
   \<and> fst (calculateAgentTokenPrice cycleEnv noAgentPrices agentA configA []) = 1
   \<and> warnings (snd (calculateAgentTokenPrice cycleEnv noAgentPrices agentA configA []))
        = [''Circular dependency in getAgentTokenPrice: '' @ agentA @ '' -> '' @ agentB
             @ '' -> '' @ agentA]
   \<and> map_option ag_price
        (agentTokenPrices (snd (calculateAgentTokenPrice cycleEnv noAgentPrices agentA configA []))
           agentB) = Some (1 / 2)"
  by (simp add: calculateAgentTokenPrice.simps getAgentTokenPrice.simps cycleEnv_def
        noAgentPrices_def configA_def configB_def agent_addresses removeOutliers_def
        joinArrow_def Let_def)

subsection \<open>Swap classifier\<close>

text \<open>
  C8. For every V3 swap log with signed amounts \<open>(amount0, amount1)\<close> and either
  monitored side, the classifier sets \<open>isBuy\<close> exactly when the monitored-side amount is
  strictly negative, and the token and pair amounts it reports are the formatted absolute
  values of the monitored-side and of the pair-side amount.
\<close>

theorem parseV3SwapInfo_classification:
  "isBuy (parseV3SwapInfo fmt a0 a1 True d0 d1 pc) = (a0 < 0)
   \<and> tokenAmount (parseV3SwapInfo fmt a0 a1 True d0 d1 pc) = fmt (abs a0) d0 @ '' tokens''
   \<and> pairAmount (parseV3SwapInfo fmt a0 a1 True d0 d1 pc) = fmt (abs a1) d1 @ '' '' @ pair pc
   \<and> isBuy (parseV3SwapInfo fmt a0 a1 False d0 d1 pc) = (a1 < 0)
   \<and> tokenAmount (parseV3SwapInfo fmt a0 a1 False d0 d1 pc) = fmt (abs a1) d1 @ '' tokens''
   \<and> pairAmount (parseV3SwapInfo fmt a0 a1 False d0 d1 pc) = fmt (abs a0) d0 @ '' '' @ pair pc"
  by (simp add: parseV3SwapInfo_def abs_if)

subsection \<open>Mempool tracker\<close>

text \<open>A pending direct V2 swap on the monitored pool is tracked, emitted and watched.\<close>

lemma toLowerCase_swapTx:
  "toLowerCase ''0x0eD7e52944161450477ee417DE9Cd3a859b14fD0'' = poolT"
  "toLowerCase ''0x022c0d9f'' = ''0x022c0d9f''"
  by code_simp+

lemma handlePendingTransaction_tracks_swap:
  "\<exists>m'. handlePendingTransaction provider watchingPool (JString swapHash) = Inr m'
     \<and> map fst (pendingSwaps m') = [swapHash]
     \<and> map (\<lambda>p. sd_operation (ps_data p)) (mm_emitted m') = [''buy'']
     \<and> mm_watching m' = [swapHash]
     \<and> pendingDetected (mm_metrics m') = 1"
  by (simp add: handlePendingTransaction_def provider_def watchingPool_def swapHash_def
        startsWith_def swapTx_def getPoolConfigForTx_def decodeSwapTransaction_def
        decodeV2DirectSwap_def SWAP_SIGNATURES_def emitPendingSwap_def toLowerCase_swapTx
        Let_def)

text \<open>
  C9. For every value delivered on the pending-transaction channel whose string form is
  not a \<open>0x\<close>-prefixed string of length 66, the handler resolves without throwing and
  leaves the monitor exactly as it was: nothing tracked, nothing emitted, and the
  subscription still active.
\<close>

theorem handlePendingTransaction_drops_garbage:
  "\<not> (startsWith (stringForm v) ''0x'' \<and> length (stringForm v) = 66)
   \<Longrightarrow> handlePendingTransaction env m v = Inr m"
  by (cases v) (auto simp: handlePendingTransaction_def)

text \<open>A block header object on the channel.\<close>

theorem handlePendingTransaction_drops_garbage_witness:
  "\<not> (startsWith (stringForm blockHeader) ''0x'' \<and> length (stringForm blockHeader) = 66)
   \<and> handlePendingTransaction provider watchingPool blockHeader = Inr watchingPool"
proof -
  have g: "\<not> (startsWith (stringForm blockHeader) ''0x'' \<and> length (stringForm blockHeader) = 66)"
    by (simp add: blockHeader_def)
  from handlePendingTransaction_drops_garbage [OF g, of provider watchingPool] g
  show ?thesis by simp
qed

subsection \<open>Broadcasting\<close>

text \<open>
  C10. Every call of \<open>broadcastPrice\<close> emits one payload carrying the price data twice:
  as \<open>price-update\<close> to the token's room and as \<open>global-price-update\<close> to all sessions,
  so every connected session, subscribed to the token or not, receives the latter.
\<close>

theorem broadcastPrice_global:
  "\<exists>upd. pu_data upd = pd
     \<and> emitted (broadcastPrice toFixed st a pd) =
         emitted st @
           [\<lparr> em_target = ToRoom (''token:'' @ toLowerCase a), em_event = ''price-update'',
              em_payload = upd \<rparr>,
            \<lparr> em_target = ToAll, em_event = ''global-price-update'', em_payload = upd \<rparr>]
     \<and> inbox s (emitted (broadcastPrice toFixed st a pd)) =
         inbox s (emitted st)
           @ (if ''token:'' @ toLowerCase a \<in> set (rooms s) then [(''price-update'', upd)] else [])
           @ [(''global-price-update'', upd)]"
  by (simp add: broadcastPrice_def Let_def inbox_def receives_def)

end
